theory Spec2Isabelle
  imports Complex_Main "HOL-Library.AList" "HOL-Library.Sublist"
begin

section \<open>Python values\<close>

text \<open>
  The values that \<^verbatim>\<open>json.loads\<close> produces and \<^verbatim>\<open>json.dumps\<close> consumes. A Python
  \<^verbatim>\<open>dict\<close> is an association list in insertion order; it is read with \<open>map_of\<close> and
  written with \<open>AList.update\<close> (an existing key keeps its place, a new key goes to the
  end, as in Python). \<open>JNull\<close> is Python's \<^verbatim>\<open>None\<close>. \<open>JFloat\<close> carries the numeric value
  of a finite float.
\<close>

datatype json =
    JNull
  | JBool bool
  | JInt int
  | JFloat real
  | JStr string
  | JArr "json list"
  | JObj "(string \<times> json) list"

type_synonym dict = "(string \<times> json) list"

type_synonym bytes = "char list"

text \<open>Python truthiness, as tested by \<^verbatim>\<open>if x\<close>, \<^verbatim>\<open>not x\<close> and \<^verbatim>\<open>x or y\<close>.\<close>

fun truthy :: "json \<Rightarrow> bool" where
  "truthy JNull = False"
| "truthy (JBool b) = b"
| "truthy (JInt n) = (n \<noteq> 0)"
| "truthy (JFloat x) = (x \<noteq> 0)"
| "truthy (JStr s) = (s \<noteq> [])"
| "truthy (JArr xs) = (xs \<noteq> [])"
| "truthy (JObj d) = (d \<noteq> [])"

text \<open>The exceptions the two handlers can meet.\<close>

datatype exn =
    ValueError
  | UnicodeDecodeError
  | JSONDecodeError
  | TypeError
  | KeyError
  | AttributeError
  | RequestException string

text \<open>
  \<^verbatim>\<open>key in x\<close>: key membership for a dict, element membership for a list, substring test
  for a string, \<^verbatim>\<open>TypeError\<close> for every other JSON value.
\<close>

fun py_in :: "string \<Rightarrow> json \<Rightarrow> exn + bool" where
  "py_in k (JObj d) = Inr (map_of d k \<noteq> None)"
| "py_in k (JArr xs) = Inr (JStr k \<in> set xs)"
| "py_in k (JStr s) = Inr (sublist k s)"
| "py_in k JNull = Inl TypeError"
| "py_in k (JBool b) = Inl TypeError"
| "py_in k (JInt n) = Inl TypeError"
| "py_in k (JFloat x) = Inl TypeError"

text \<open>\<^verbatim>\<open>x[key]\<close> with a string key: only a dict can be subscripted by a string.\<close>

fun py_getitem :: "json \<Rightarrow> string \<Rightarrow> exn + json" where
  "py_getitem (JObj d) k = (case map_of d k of None \<Rightarrow> Inl KeyError | Some v \<Rightarrow> Inr v)"
| "py_getitem JNull k = Inl TypeError"
| "py_getitem (JBool b) k = Inl TypeError"
| "py_getitem (JInt n) k = Inl TypeError"
| "py_getitem (JFloat x) k = Inl TypeError"
| "py_getitem (JStr s) k = Inl TypeError"
| "py_getitem (JArr xs) k = Inl TypeError"

text \<open>\<^verbatim>\<open>d.get(key)\<close>: the value, or \<^verbatim>\<open>None\<close> for a missing key.\<close>

definition dict_get :: "dict \<Rightarrow> string \<Rightarrow> json" where
  "dict_get d k = (case map_of d k of None \<Rightarrow> JNull | Some v \<Rightarrow> v)"

text \<open>
  The two library functions applied to request and response bodies are parameters of the
  model: \<^verbatim>\<open>bytes.decode('utf-8')\<close> (\<open>None\<close> for \<^verbatim>\<open>UnicodeDecodeError\<close>) and
  \<^verbatim>\<open>json.loads\<close> (\<open>None\<close> for \<^verbatim>\<open>JSONDecodeError\<close>).
\<close>

record pylib =
  decode_utf8 :: "bytes \<Rightarrow> string option"
  json_loads :: "string \<Rightarrow> json option"

section \<open>Configuration, outbound call, response\<close>

text \<open>
  The module-level constants \<^verbatim>\<open>API_KEY\<close>, \<^verbatim>\<open>PERSONA_ID\<close> and \<^verbatim>\<open>REPLICA_ID\<close>;
  \<^verbatim>\<open>os.environ.get('REPLICA_ID')\<close> is \<open>None\<close> when the variable is not set.
\<close>

record secrets =
  api_key :: string
  persona_id :: string
  replica_id :: "string option"

text \<open>The arguments of \<^verbatim>\<open>requests.post\<close>; \<open>timeout = None\<close> when the argument is not given.\<close>

record outbound =
  url :: string
  out_headers :: "(string \<times> string) list"
  json_payload :: dict
  timeout :: "nat option"

record upstream_response =
  status_code :: int
  resp_text :: string

text \<open>
  What \<^verbatim>\<open>requests.post\<close> does: it raises a \<^verbatim>\<open>RequestException\<close> (connection error,
  timeout), carried with its \<^verbatim>\<open>str(exc)\<close>, or it returns a response.
\<close>

datatype upstream_result = Raised string | Responded upstream_response

text \<open>
  The body written to the caller: \<open>Json v\<close> is \<^verbatim>\<open>json.dumps(v)\<close>, \<open>Raw s\<close> a string sent
  as it is, \<open>ErrorPage\<close> the HTML page of \<^verbatim>\<open>send_error\<close>. The headers of a response
  are those set with \<^verbatim>\<open>send_header\<close> (or returned by the Flask view), in order; the
  \<^verbatim>\<open>Server\<close> and \<^verbatim>\<open>Date\<close> headers that \<^verbatim>\<open>send_response\<close> adds by itself are not
  listed.
\<close>

datatype body = Json json | Raw string | ErrorPage int string | NoBody

record response =
  status :: int
  headers :: "(string \<times> string) list"
  body :: body

text \<open>
  What handling one request does: the outbound calls it issued, in order, and either the
  response it sent or the exception that left the handler uncaught.
\<close>

record outcome =
  calls :: "outbound list"
  reply :: "exn + response"

section \<open>Payload construction (both variants)\<close>

text \<open>
  \<^verbatim>\<open>payload = {"persona_id": PERSONA_ID}\<close>, then
  \<^verbatim>\<open>if REPLICA_ID: payload["replica_id"] = REPLICA_ID\<close>.
\<close>

definition base_payload :: "secrets \<Rightarrow> dict" where
  "base_payload sec =
     (let payload = [(''persona_id'', JStr (persona_id sec))]
      in case replica_id sec of
           None \<Rightarrow> payload
         | Some r \<Rightarrow> if r \<noteq> [] then AList.update ''replica_id'' (JStr r) payload else payload)"

definition allowed_keys :: "string list" where
  "allowed_keys =
     [''conversation_name'', ''conversational_context'', ''callback_url'',
      ''properties'', ''audio_only'']"

text \<open>
  The loop \<^verbatim>\<open>for key in allowed_keys: if key in extra: payload[key] = extra[key]\<close>,
  over the keys in the given order.
\<close>

fun merge_allowed :: "json \<Rightarrow> string list \<Rightarrow> dict \<Rightarrow> exn + dict" where
  "merge_allowed extra [] payload = Inr payload"
| "merge_allowed extra (key # keys) payload =
     (case py_in key extra of
        Inl e \<Rightarrow> Inl e
      | Inr present \<Rightarrow>
          if present then
            (case py_getitem extra key of
               Inl e \<Rightarrow> Inl e
             | Inr v \<Rightarrow> merge_allowed extra keys (AList.update key v payload))
          else merge_allowed extra keys payload)"

definition tavus_url :: string where
  "tavus_url = ''https://tavusapi.com/v2/conversations''"

section \<open>The standard-library server\<close>

text \<open>
  The parts of the inbound request that \<^verbatim>\<open>do_POST\<close> reads: \<^verbatim>\<open>self.path\<close>, the
  \<^verbatim>\<open>Content-Length\<close> header and the bytes waiting on \<^verbatim>\<open>self.rfile\<close>.
\<close>

datatype content_length = NoHeader | NotAnInt | Length int

record request =
  path :: string
  content_length :: content_length
  rfile :: bytes

text \<open>
  \<^verbatim>\<open>content_length = int(self.headers.get('Content-Length', 0))\<close> and
  \<^verbatim>\<open>body = self.rfile.read(content_length) if content_length > 0 else b''\<close>.
\<close>

definition read_body :: "request \<Rightarrow> exn + bytes" where
  "read_body req =
     (case content_length req of
        NoHeader \<Rightarrow> Inr []
      | NotAnInt \<Rightarrow> Inl ValueError
      | Length n \<Rightarrow> Inr (if n > 0 then take (nat n) (rfile req) else []))"

text \<open>
  \<^verbatim>\<open>send_error(code, message)\<close> of \<^verbatim>\<open>BaseHTTPRequestHandler\<close>: the status, the
  library's own headers (its \<^verbatim>\<open>Content-Length\<close> left out) and its HTML error page.
\<close>

definition send_error :: "int \<Rightarrow> string \<Rightarrow> response" where
  "send_error code message =
     \<lparr>status = code,
      headers = [(''Connection'', ''close''), (''Content-Type'', ''text/html;charset=utf-8'')],
      body = ErrorPage code message\<rparr>"

text \<open>
  The body as \<^verbatim>\<open>extra_params\<close>: \<open>Inr\<close> the parsed value (\<^verbatim>\<open>{}\<close> for an empty body),
  \<open>Inl\<close> how the handler ends otherwise (the 400 response, or the uncaught
  \<^verbatim>\<open>UnicodeDecodeError\<close>, which \<^verbatim>\<open>except json.JSONDecodeError\<close> does not catch).
\<close>

definition parse_extra :: "pylib \<Rightarrow> bytes \<Rightarrow> (exn + response) + json" where
  "parse_extra lib b =
     (if b \<noteq> [] then
        (case decode_utf8 lib b of
           None \<Rightarrow> Inl (Inl UnicodeDecodeError)
         | Some s \<Rightarrow>
             (case json_loads lib s of
                None \<Rightarrow> Inl (Inr (send_error 400 ''Invalid JSON in request body''))
              | Some v \<Rightarrow> Inr v))
      else Inr (JObj []))"

definition server_call :: "secrets \<Rightarrow> dict \<Rightarrow> outbound" where
  "server_call sec payload =
     \<lparr>url = tavus_url,
      out_headers = [(''Content-Type'', ''application/json''), (''x-api-key'', api_key sec)],
      json_payload = payload,
      timeout = Some 30\<rparr>"

definition cors_headers :: "(string \<times> string) list" where
  "cors_headers =
     [(''Access-Control-Allow-Origin'', ''*''),
      (''Access-Control-Allow-Methods'', ''POST, OPTIONS''),
      (''Access-Control-Allow-Headers'', ''Content-Type'')]"

text \<open>\<^verbatim>\<open>response.json()\<close>: the upstream body parsed.\<close>

definition response_json :: "pylib \<Rightarrow> upstream_response \<Rightarrow> json option" where
  "response_json lib r = json_loads lib (resp_text r)"

text \<open>
  The rest of \<^verbatim>\<open>do_POST\<close>, from the \<^verbatim>\<open>except requests.RequestException\<close> clause to the
  end: the answer to the caller for each result of the outbound call.
\<close>

definition relay :: "pylib \<Rightarrow> upstream_result \<Rightarrow> exn + response" where
  "relay lib res =
     (case res of
        Raised exc \<Rightarrow>
          Inr \<lparr>status = 502,
               headers = [(''Content-Type'', ''application/json'')],
               body = Json (JObj [(''error'', JStr ''Failed to contact Tavus API''),
                                  (''details'', JStr exc)])\<rparr>
      | Responded r \<Rightarrow>
          if status_code r \<noteq> 200 then
            Inr \<lparr>status = status_code r,
                 headers = [(''Content-Type'', ''application/json'')],
                 body = Json (JObj [(''error'', JStr ''Tavus API error''),
                                    (''status_code'', JInt (status_code r)),
                                    (''details'', JStr (resp_text r))])\<rparr>
          else
            (case response_json lib r of
               None \<Rightarrow> Inl JSONDecodeError
             | Some (JObj data) \<Rightarrow>
                 (let conversation_url = dict_get data ''conversation_url'';
                      conversation_id = dict_get data ''conversation_id''
                  in if \<not> truthy conversation_url then
                       Inr \<lparr>status = 500,
                            headers = [(''Content-Type'', ''application/json'')],
                            body = Json (JObj [(''error'', JStr ''Invalid response from Tavus API''),
                                               (''details'', JObj data)])\<rparr>
                     else
                       Inr \<lparr>status = 200,
                            headers = cors_headers @ [(''Content-Type'', ''application/json'')],
                            body = Json (JObj [(''conversation_url'', conversation_url),
                                               (''conversation_id'', conversation_id)])\<rparr>)
             | Some _ \<Rightarrow> Inl AttributeError))"

definition do_POST :: "pylib \<Rightarrow> secrets \<Rightarrow> (outbound \<Rightarrow> upstream_result) \<Rightarrow> request \<Rightarrow> outcome" where
  "do_POST lib sec post req =
     (if path req \<noteq> ''/create-conversation'' then
        \<lparr>calls = [], reply = Inr (send_error 404 ''Not Found'')\<rparr>
      else
        (case read_body req of
           Inl e \<Rightarrow> \<lparr>calls = [], reply = Inl e\<rparr>
         | Inr b \<Rightarrow>
             (case parse_extra lib b of
                Inl stop \<Rightarrow> \<lparr>calls = [], reply = stop\<rparr>
              | Inr extra_params \<Rightarrow>
                  (case merge_allowed extra_params allowed_keys (base_payload sec) of
                     Inl e \<Rightarrow> \<lparr>calls = [], reply = Inl e\<rparr>
                   | Inr payload \<Rightarrow>
                       (let call = server_call sec payload
                        in \<lparr>calls = [call], reply = relay lib (post call)\<rparr>)))))"

text \<open>\<^verbatim>\<open>do_OPTIONS\<close>: the preflight answer, with no outbound call.\<close>

definition do_OPTIONS :: outcome where
  "do_OPTIONS = \<lparr>calls = [], reply = Inr \<lparr>status = 200, headers = cors_headers, body = NoBody\<rparr>\<rparr>"

section \<open>The Flask view\<close>

text \<open>
  The parts of Flask's \<^verbatim>\<open>request\<close> that \<^verbatim>\<open>get_json\<close> reads: whether the content type
  is JSON, and the body.
\<close>

record flask_request =
  is_json :: bool
  data :: bytes

text \<open>
  \<^verbatim>\<open>request.get_json(silent=True)\<close>: \<^verbatim>\<open>None\<close> when the content type is not JSON and
  when decoding or parsing fails (both are a \<^verbatim>\<open>ValueError\<close>, which \<^verbatim>\<open>silent\<close> swallows).
\<close>

definition get_json_silent :: "pylib \<Rightarrow> flask_request \<Rightarrow> json" where
  "get_json_silent lib req =
     (if \<not> is_json req then JNull
      else case decode_utf8 lib (data req) of
             None \<Rightarrow> JNull
           | Some s \<Rightarrow> (case json_loads lib s of None \<Rightarrow> JNull | Some v \<Rightarrow> v))"

definition flask_call :: "secrets \<Rightarrow> dict \<Rightarrow> outbound" where
  "flask_call sec payload =
     \<lparr>url = tavus_url,
      out_headers = [(''x-api-key'', api_key sec), (''Content-Type'', ''application/json'')],
      json_payload = payload,
      timeout = None\<rparr>"

definition create_conversation ::
  "pylib \<Rightarrow> secrets \<Rightarrow> (outbound \<Rightarrow> upstream_result) \<Rightarrow> flask_request \<Rightarrow> outcome" where
  "create_conversation lib sec post req =
     (let got = get_json_silent lib req;
          extra = (if truthy got then got else JObj [])
      in case merge_allowed extra allowed_keys (base_payload sec) of
           Inl e \<Rightarrow> \<lparr>calls = [], reply = Inl e\<rparr>
         | Inr payload \<Rightarrow>
             (let call = flask_call sec payload
              in case post call of
                   Raised exc \<Rightarrow> \<lparr>calls = [call], reply = Inl (RequestException exc)\<rparr>
                 | Responded resp \<Rightarrow>
                     \<lparr>calls = [call],
                      reply = Inr \<lparr>status = status_code resp,
                                  headers = [(''Content-Type'', ''application/json'')] @ cors_headers,
                                  body = Raw (resp_text resp)\<rparr>\<rparr>))"

section \<open>The outbound payload as the specification describes it\<close>


text \<open>The field names of every payload that a handled request sent upstream.\<close>

definition payload_keys :: "outcome \<Rightarrow> string list" where
  "payload_keys out = concat (map (map fst \<circ> json_payload) (calls out))"

section \<open>Concrete requests and upstream replies\<close>

text \<open>
  A configuration, a small table standing for \<^verbatim>\<open>json.loads\<close> on the texts used below, a
  decoder that rejects the byte \<open>0xFF\<close> (which no UTF-8 text contains), and upstreams
  that fail or reply with a fixed status and body.
\<close>

definition demo_secrets :: secrets where
  "demo_secrets = \<lparr>api_key = ''sk_test'', persona_id = ''p_demo'', replica_id = Some ''r_demo''\<rparr>"

definition blank_replica_secrets :: secrets where
  "blank_replica_secrets = \<lparr>api_key = ''sk_test'', persona_id = ''p_demo'', replica_id = Some []\<rparr>"

definition inbound_text :: string where
  \<open>inbound_text = ''{"conversation_name":"x","persona_id":"evil"}''\<close>

definition ok_text :: string where
  \<open>ok_text = ''{"conversation_url":"https://x","conversation_id":"c1"}''\<close>

definition no_url_text :: string where
  \<open>no_url_text = ''{"conversation_id":"c1"}''\<close>

definition empty_url_text :: string where
  \<open>empty_url_text = ''{"conversation_url":"","conversation_id":"c1"}''\<close>

definition null_url_text :: string where
  \<open>null_url_text = ''{"conversation_url":null}''\<close>

definition no_id_text :: string where
  \<open>no_id_text = ''{"conversation_url":"https://x"}''\<close>

definition extra_field_text :: string where
  \<open>extra_field_text = ''{"conversation_url":"https://x","conversation_id":"c1","status":"active"}''\<close>

definition demo_loads :: "string \<Rightarrow> json option" where
  "demo_loads =
     map_of
       [(''{}'', JObj []),
        (inbound_text, JObj [(''conversation_name'', JStr ''x''), (''persona_id'', JStr ''evil'')]),
        (ok_text, JObj [(''conversation_url'', JStr ''https://x''), (''conversation_id'', JStr ''c1'')]),
        (no_url_text, JObj [(''conversation_id'', JStr ''c1'')]),
        (empty_url_text, JObj [(''conversation_url'', JStr []), (''conversation_id'', JStr ''c1'')]),
        (null_url_text, JObj [(''conversation_url'', JNull)]),
        (no_id_text, JObj [(''conversation_url'', JStr ''https://x'')]),
        (extra_field_text,
           JObj [(''conversation_url'', JStr ''https://x''), (''conversation_id'', JStr ''c1''),
                 (''status'', JStr ''active'')])]"

definition demo_decode :: "bytes \<Rightarrow> string option" where
  "demo_decode b = (if CHR 0xFF \<in> set b then None else Some b)"

definition demo_payload :: dict where
  "demo_payload =
     [(''persona_id'', JStr ''p_demo''), (''replica_id'', JStr ''r_demo''),
      (''conversation_name'', JStr ''x'')]"

definition demo_lib :: pylib where
  "demo_lib = \<lparr>decode_utf8 = demo_decode, json_loads = demo_loads\<rparr>"

definition post_request :: "string \<Rightarrow> request" where
  "post_request b =
     \<lparr>path = ''/create-conversation'', content_length = Length (int (length b)), rfile = b\<rparr>"

definition upstream_down :: "outbound \<Rightarrow> upstream_result" where
  "upstream_down call = Raised ''timed out''"

definition upstream_replies :: "int \<Rightarrow> string \<Rightarrow> outbound \<Rightarrow> upstream_result" where
  "upstream_replies code t call = Responded \<lparr>status_code = code, resp_text = t\<rparr>"

lemmas demo_defs =
  demo_secrets_def blank_replica_secrets_def inbound_text_def ok_text_def no_url_text_def
  empty_url_text_def null_url_text_def no_id_text_def extra_field_text_def demo_loads_def
  demo_decode_def demo_lib_def demo_payload_def post_request_def upstream_down_def upstream_replies_def

lemmas handler_defs =
  do_POST_def create_conversation_def read_body_def parse_extra_def relay_def response_json_def
  get_json_silent_def base_payload_def allowed_keys_def server_call_def flask_call_def
  send_error_def cors_headers_def tavus_url_def dict_get_def


section \<open>The merge loop\<close>

text \<open>
  For an inbound object the loop always succeeds, and its result is the payload
  overwritten with the listed keys that the object has.
\<close>

lemma merge_allowed_obj:
  "\<exists>p'. merge_allowed (JObj d) ks p = Inr p' \<and>
     map_of p' = (\<lambda>k. if k \<in> set ks \<and> map_of d k \<noteq> None then map_of d k else map_of p k)"
proof (induction ks arbitrary: p)
  case Nil
  then show ?case by simp
next
  case (Cons key ks)
  show ?case
  proof (cases "map_of d key")
    case None
    with Cons[of p] show ?thesis by (auto simp: fun_eq_iff)
  next
    case (Some v)
    with Cons[of "AList.update key v p"] show ?thesis
      by (auto simp: fun_eq_iff update_conv')
  qed
qed

text \<open>
  For every other JSON value the loop either leaves the payload as it was or raises
  \<^verbatim>\<open>TypeError\<close>.
\<close>

lemma merge_allowed_list:
  "merge_allowed (JArr xs) ks p =
     (if \<exists>k\<in>set ks. JStr k \<in> set xs then Inl TypeError else Inr p)"
  by (induction ks) simp_all

lemma merge_allowed_str:
  "merge_allowed (JStr s) ks p =
     (if \<exists>k\<in>set ks. sublist k s then Inl TypeError else Inr p)"
  by (induction ks) simp_all

lemma merge_allowed_scalar:
  "extra = JNull \<or> extra = JBool b \<or> extra = JInt n \<or> extra = JFloat x \<Longrightarrow>
     merge_allowed extra ks p = (if set ks = {} then Inr p else Inl TypeError)"
  by (cases ks) auto

text \<open>
  The server iterates over a Python set, whose order is not fixed. The order does not
  matter: two lists with the same keys give the same exception or the same dict.
\<close>

lemma merge_allowed_order_irrelevant:
  assumes "set ks = set ks'"
  shows "map_sum id map_of (merge_allowed extra ks p) =
         map_sum id map_of (merge_allowed extra ks' p)"
proof (cases extra)
  case (JObj d)
  obtain p1 where 1: "merge_allowed (JObj d) ks p = Inr p1"
    "map_of p1 = (\<lambda>k. if k \<in> set ks \<and> map_of d k \<noteq> None then map_of d k else map_of p k)"
    using merge_allowed_obj[of d ks p] by blast
  obtain p2 where 2: "merge_allowed (JObj d) ks' p = Inr p2"
    "map_of p2 = (\<lambda>k. if k \<in> set ks' \<and> map_of d k \<noteq> None then map_of d k else map_of p k)"
    using merge_allowed_obj[of d ks' p] by blast
  from 1 2 assms JObj show ?thesis by simp
next
  case (JArr xs)
  with assms show ?thesis by (simp add: merge_allowed_list)
next
  case (JStr s)
  with assms show ?thesis by (simp add: merge_allowed_str)
next
  case JNull
  with assms show ?thesis by (simp add: merge_allowed_scalar[of JNull])
next
  case (JBool b)
  with assms show ?thesis by (simp add: merge_allowed_scalar[of "JBool b" b])
next
  case (JInt n)
  with assms show ?thesis by (simp add: merge_allowed_scalar[of "JInt n" _ n])
next
  case (JFloat x)
  with assms show ?thesis by (simp add: merge_allowed_scalar[of "JFloat x" _ _ x])
qed

text \<open>
  The loop adds no key outside the list.
\<close>

lemma merge_allowed_keys:
  "merge_allowed extra ks p = Inr p' \<Longrightarrow> k \<in> fst ` set p' \<Longrightarrow> k \<in> fst ` set p \<or> k \<in> set ks"
proof (induction ks arbitrary: p)
  case Nil
  then show ?case by simp
next
  case (Cons key ks)
  show ?case
  proof (cases "py_in key extra")
    case (Inl e)
    with Cons.prems show ?thesis by simp
  next
    case (Inr present)
    show ?thesis
    proof (cases present)
      case False
      with Inr Cons.prems have "merge_allowed extra ks p = Inr p'" by simp
      from Cons.IH[OF this Cons.prems(2)] show ?thesis by auto
    next
      case True
      show ?thesis
      proof (cases "py_getitem extra key")
        case (Inl e)
        with \<open>py_in key extra = Inr present\<close> True Cons.prems show ?thesis by simp
      next
        case (Inr v)
        with \<open>py_in key extra = Inr present\<close> True Cons.prems
        have "merge_allowed extra ks (AList.update key v p) = Inr p'" by simp
        from Cons.IH[OF this Cons.prems(2)] show ?thesis by (auto simp: dom_update)
      qed
    qed
  qed
qed



lemma replica_not_allowed: "''replica_id'' \<notin> set allowed_keys"
  by (simp add: allowed_keys_def)


section \<open>What each handler sends upstream\<close>



lemma do_POST_calls_cases:
  "calls (do_POST lib sec post req) = [] \<or>
   (\<exists>extra payload. merge_allowed extra allowed_keys (base_payload sec) = Inr payload \<and>
      calls (do_POST lib sec post req) = [server_call sec payload])"
  by (auto simp: do_POST_def Let_def split: if_splits sum.splits)

lemma create_conversation_calls_cases:
  "calls (create_conversation lib sec post req) = [] \<or>
   (\<exists>extra payload. merge_allowed extra allowed_keys (base_payload sec) = Inr payload \<and>
      calls (create_conversation lib sec post req) = [flask_call sec payload])"
  by (auto simp: create_conversation_def Let_def split: if_splits sum.splits upstream_result.splits)

lemma do_POST_reply:
  "calls (do_POST lib sec post req) = [call] \<Longrightarrow>
     reply (do_POST lib sec post req) = relay lib (post call)"
  by (auto simp: do_POST_def Let_def split: if_splits sum.splits)

lemma create_conversation_reply:
  "calls (create_conversation lib sec post req) = [call] \<Longrightarrow>
     reply (create_conversation lib sec post req) =
       (case post call of
          Raised exc \<Rightarrow> Inl (RequestException exc)
        | Responded resp \<Rightarrow>
            Inr \<lparr>status = status_code resp,
                 headers = [(''Content-Type'', ''application/json'')] @ cors_headers,
                 body = Raw (resp_text resp)\<rparr>)"
  by (auto simp: create_conversation_def Let_def split: if_splits sum.splits upstream_result.splits)


text \<open>
  Every outbound call of the server carries \<^verbatim>\<open>timeout=30\<close>; no outbound call of
  the Flask view carries a timeout.
\<close>

lemma do_POST_calls_timeout:
  "call \<in> set (calls (do_POST lib sec post req)) \<Longrightarrow> timeout call = Some 30"
  by (auto simp: do_POST_def Let_def server_call_def split: if_splits sum.splits)

lemma flask_calls_no_timeout:
  "call \<in> set (calls (create_conversation lib sec post req)) \<Longrightarrow> timeout call = None"
  by (auto simp: create_conversation_def flask_call_def Let_def
      split: if_splits sum.splits upstream_result.splits)

text \<open>
  The server sets the cross-origin headers on its success response only; the Flask
  view sets them on every response it returns.
\<close>

lemma server_cors_only_on_success:
  "reply (do_POST lib sec post req) = Inr resp \<Longrightarrow>
     ((''Access-Control-Allow-Origin'', ''*'') \<in> set (headers resp)) = (status resp = 200)"
  by (auto simp: do_POST_def relay_def parse_extra_def send_error_def cors_headers_def Let_def
      split: if_splits sum.splits upstream_result.splits option.splits json.splits)

lemma flask_cors_on_every_response:
  "reply (create_conversation lib sec post req) = Inr resp \<Longrightarrow>
     (''Access-Control-Allow-Origin'', ''*'') \<in> set (headers resp)"
  by (auto simp: create_conversation_def cors_headers_def Let_def
      split: if_splits sum.splits upstream_result.splits)

lemma demo_server_calls:
  "calls (do_POST demo_lib demo_secrets post (post_request inbound_text)) =
     [server_call demo_secrets demo_payload]"
  by (simp add: demo_defs demo_payload_def handler_defs Let_def)

lemma demo_flask_calls:
  "calls (create_conversation demo_lib demo_secrets post \<lparr>is_json = True, data = inbound_text\<rparr>) =
     [flask_call demo_secrets demo_payload]"
  by (simp add: demo_defs handler_defs Let_def split: upstream_result.splits)

lemma base_payload_blank_replica:
  "replica_id sec = Some [] \<Longrightarrow> base_payload sec = [(''persona_id'', JStr (persona_id sec))]"
  by (simp add: base_payload_def)

lemma merge_allowed_no_replica:
  assumes "replica_id sec = Some []"
    and "merge_allowed extra allowed_keys (base_payload sec) = Inr payload"
  shows "''replica_id'' \<notin> fst ` set payload"
proof
  assume "''replica_id'' \<in> fst ` set payload"
  from merge_allowed_keys[OF assms(2) this]
  show False
    using replica_not_allowed by (simp add: base_payload_blank_replica[OF assms(1)])
qed

lemma no_replica_server_keys:
  assumes "replica_id sec = Some []"
  shows "''replica_id'' \<notin> set (payload_keys (do_POST lib sec post req))"
proof -
  consider "calls (do_POST lib sec post req) = []"
    | extra payload where "merge_allowed extra allowed_keys (base_payload sec) = Inr payload"
      "calls (do_POST lib sec post req) = [server_call sec payload]"
    using do_POST_calls_cases[of lib sec post req] by blast
  then show ?thesis
  proof cases
    case 1
    then show ?thesis by (simp add: payload_keys_def)
  next
    case 2
    from merge_allowed_no_replica[OF assms 2(1)] 2(2) show ?thesis
      by (simp add: payload_keys_def server_call_def)
  qed
qed

lemma no_replica_flask_keys:
  assumes "replica_id sec = Some []"
  shows "''replica_id'' \<notin> set (payload_keys (create_conversation lib sec post req))"
proof -
  consider "calls (create_conversation lib sec post req) = []"
    | extra payload where "merge_allowed extra allowed_keys (base_payload sec) = Inr payload"
      "calls (create_conversation lib sec post req) = [flask_call sec payload]"
    using create_conversation_calls_cases[of lib sec post req] by blast
  then show ?thesis
  proof cases
    case 1
    then show ?thesis by (simp add: payload_keys_def)
  next
    case 2
    from merge_allowed_no_replica[OF assms 2(1)] 2(2) show ?thesis
      by (simp add: payload_keys_def flask_call_def)
  qed
qed

section \<open>The claims\<close>

subsection \<open>Outbound payload\<close>



text \<open>
  Claim C9. With \<^verbatim>\<open>REPLICA_ID\<close> set to the empty string, no payload that either
  variant sends upstream has the key \<^verbatim>\<open>replica_id\<close>, whatever the request.
\<close>

theorem C9_blank_replica_id_omitted:
  "replica_id sec = Some [] \<Longrightarrow>
     ''replica_id'' \<notin> set (payload_keys (do_POST lib sec post req)) \<and>
     ''replica_id'' \<notin> set (payload_keys (create_conversation lib sec post freq))"
  by (simp add: no_replica_server_keys no_replica_flask_keys)

text \<open>
  At a request that does reach the upstream, the payloads have exactly the keys
  \<^verbatim>\<open>persona_id\<close> and \<^verbatim>\<open>conversation_name\<close>.
\<close>

theorem C9_blank_replica_id_omitted_witness:
  "replica_id blank_replica_secrets = Some [] \<and>
   payload_keys (do_POST demo_lib blank_replica_secrets upstream_down (post_request inbound_text)) =
     [''persona_id'', ''conversation_name''] \<and>
   payload_keys (create_conversation demo_lib blank_replica_secrets upstream_down
      \<lparr>is_json = True, data = inbound_text\<rparr>) = [''persona_id'', ''conversation_name''] \<and>
   ''replica_id'' \<notin> set (payload_keys
      (do_POST demo_lib blank_replica_secrets upstream_down (post_request inbound_text))) \<and>
   ''replica_id'' \<notin> set (payload_keys
      (create_conversation demo_lib blank_replica_secrets upstream_down
         \<lparr>is_json = True, data = inbound_text\<rparr>))"
  using C9_blank_replica_id_omitted [of blank_replica_secrets demo_lib upstream_down
      "post_request inbound_text" "\<lparr>is_json = True, data = inbound_text\<rparr>"]
  by (simp add: demo_defs handler_defs payload_keys_def)

subsection \<open>Malformed inbound JSON\<close>




subsection \<open>Cross-origin headers\<close>

text \<open>
  Claim C3 says that every response carries \<^verbatim>\<open>Access-Control-Allow-Origin: *\<close>. The
  server's relayed 403 carries \<^verbatim>\<open>Content-Type\<close> only, and its 400 carries the headers
  of \<^verbatim>\<open>send_error\<close> only.
\<close>

theorem C3_error_replies_lack_cors:
  "reply (do_POST demo_lib demo_secrets (upstream_replies 403 ''Forbidden'')
       (post_request inbound_text)) =
     Inr \<lparr>status = 403,
          headers = [(''Content-Type'', ''application/json'')],
          body = Json (JObj [(''error'', JStr ''Tavus API error''),
                             (''status_code'', JInt 403),
                             (''details'', JStr ''Forbidden'')])\<rparr> \<and>
   reply (do_POST demo_lib demo_secrets (upstream_replies 403 ''Forbidden'')
       (post_request ''{oops'')) =
     Inr \<lparr>status = 400,
          headers = [(''Connection'', ''close''), (''Content-Type'', ''text/html;charset=utf-8'')],
          body = ErrorPage 400 ''Invalid JSON in request body''\<rparr>"
  by (simp add: demo_defs handler_defs)

subsection \<open>Transport failure\<close>




subsection \<open>Upstream error status\<close>

text \<open>
  The Flask view relays the upstream status with the upstream body as it is, not
  wrapped in an error object.
\<close>

theorem C5_flask_upstream_error_counterexample:
  "reply (create_conversation demo_lib demo_secrets (upstream_replies 403 ''Forbidden'')
       \<lparr>is_json = True, data = inbound_text\<rparr>) =
     Inr \<lparr>status = 403,
          headers = [(''Content-Type'', ''application/json'')] @ cors_headers,
          body = Raw ''Forbidden''\<rparr>"
  by (simp add: demo_defs handler_defs)

text \<open>
  Claim C5, as amended. An upstream response with a status other than 200 is answered
  with that status by both variants; the body is the JSON object
  \<^verbatim>\<open>{error: "Tavus API error", status_code, details: response.text}\<close> in the
  standard-library server, and the upstream body as it is in the Flask view.
\<close>

theorem C5_upstream_error:
  "(calls (do_POST lib sec post req) = [call] \<and> post call = Responded r \<and>
    status_code r \<noteq> 200 \<longrightarrow>
      reply (do_POST lib sec post req) =
        Inr \<lparr>status = status_code r,
             headers = [(''Content-Type'', ''application/json'')],
             body = Json (JObj [(''error'', JStr ''Tavus API error''),
                                (''status_code'', JInt (status_code r)),
                                (''details'', JStr (resp_text r))])\<rparr>) \<and>
   (calls (create_conversation lib sec post freq) = [call'] \<and> post call' = Responded r' \<and>
    status_code r' \<noteq> 200 \<longrightarrow>
      reply (create_conversation lib sec post freq) =
        Inr \<lparr>status = status_code r',
             headers = [(''Content-Type'', ''application/json'')] @ cors_headers,
             body = Raw (resp_text r')\<rparr>)"
  by (simp add: do_POST_reply create_conversation_reply relay_def)

text \<open>
  The hypotheses hold for an upstream that replies 403.
\<close>

theorem C5_upstream_error_witness:
  "calls (do_POST demo_lib demo_secrets (upstream_replies 403 ''Forbidden'')
       (post_request inbound_text)) = [server_call demo_secrets demo_payload] \<and>
   upstream_replies 403 ''Forbidden'' (server_call demo_secrets demo_payload) =
     Responded \<lparr>status_code = 403, resp_text = ''Forbidden''\<rparr> \<and>
   calls (create_conversation demo_lib demo_secrets (upstream_replies 403 ''Forbidden'')
       \<lparr>is_json = True, data = inbound_text\<rparr>) = [flask_call demo_secrets demo_payload] \<and>
   upstream_replies 403 ''Forbidden'' (flask_call demo_secrets demo_payload) =
     Responded \<lparr>status_code = 403, resp_text = ''Forbidden''\<rparr> \<and>
   status_code \<lparr>status_code = 403, resp_text = ''Forbidden''\<rparr> \<noteq> 200 \<and>
   reply (do_POST demo_lib demo_secrets (upstream_replies 403 ''Forbidden'')
       (post_request inbound_text)) =
     Inr \<lparr>status = 403,
          headers = [(''Content-Type'', ''application/json'')],
          body = Json (JObj [(''error'', JStr ''Tavus API error''),
                             (''status_code'', JInt 403),
                             (''details'', JStr ''Forbidden'')])\<rparr> \<and>
   reply (create_conversation demo_lib demo_secrets (upstream_replies 403 ''Forbidden'')
       \<lparr>is_json = True, data = inbound_text\<rparr>) =
     Inr \<lparr>status = 403,
          headers = [(''Content-Type'', ''application/json'')] @ cors_headers,
          body = Raw ''Forbidden''\<rparr>"
proof -
  note c = demo_server_calls [of "upstream_replies 403 ''Forbidden''"]
  note c' = demo_flask_calls [of "upstream_replies 403 ''Forbidden''"]
  have u: "upstream_replies 403 ''Forbidden'' (server_call demo_secrets demo_payload) =
     Responded \<lparr>status_code = 403, resp_text = ''Forbidden''\<rparr>"
    by (simp add: upstream_replies_def)
  have u': "upstream_replies 403 ''Forbidden'' (flask_call demo_secrets demo_payload) =
     Responded \<lparr>status_code = 403, resp_text = ''Forbidden''\<rparr>"
    by (simp add: upstream_replies_def)
  have n: "status_code \<lparr>status_code = 403, resp_text = ''Forbidden''\<rparr> \<noteq> 200"
    by simp
  from c c' u u' n
    C5_upstream_error [of demo_lib demo_secrets "upstream_replies 403 ''Forbidden''"
      "post_request inbound_text" "server_call demo_secrets demo_payload"
      "\<lparr>status_code = 403, resp_text = ''Forbidden''\<rparr>"
      "\<lparr>is_json = True, data = inbound_text\<rparr>" "flask_call demo_secrets demo_payload"
      "\<lparr>status_code = 403, resp_text = ''Forbidden''\<rparr>"]
  show ?thesis by simp
qed

subsection \<open>Upstream success without a conversation URL\<close>

text \<open>
  The Flask view does not look into the upstream body: a 200 without
  \<^verbatim>\<open>conversation_url\<close> is relayed as a 200.
\<close>

theorem C6_flask_missing_url_counterexample:
  "response_json demo_lib \<lparr>status_code = 200, resp_text = no_url_text\<rparr> =
     Some (JObj [(''conversation_id'', JStr ''c1'')]) \<and>
   reply (create_conversation demo_lib demo_secrets (upstream_replies 200 no_url_text)
       \<lparr>is_json = True, data = inbound_text\<rparr>) =
     Inr \<lparr>status = 200,
          headers = [(''Content-Type'', ''application/json'')] @ cors_headers,
          body = Raw no_url_text\<rparr>"
  by (simp add: demo_defs handler_defs)

text \<open>
  Claim C6, as amended. In the standard-library server, an upstream 200 whose parsed
  body is an object without \<^verbatim>\<open>conversation_url\<close> is answered with status 500 and the
  JSON body \<^verbatim>\<open>{error: "Invalid response from Tavus API", details: <parsed body>}\<close>.
\<close>

theorem C6_server_missing_url:
  "calls (do_POST lib sec post req) = [call] \<Longrightarrow> post call = Responded r \<Longrightarrow>
   status_code r = 200 \<Longrightarrow> response_json lib r = Some (JObj upstream_data) \<Longrightarrow>
   map_of upstream_data ''conversation_url'' = None \<Longrightarrow>
     reply (do_POST lib sec post req) =
       Inr \<lparr>status = 500,
            headers = [(''Content-Type'', ''application/json'')],
            body = Json (JObj [(''error'', JStr ''Invalid response from Tavus API''),
                               (''details'', JObj upstream_data)])\<rparr>"
  by (simp add: do_POST_reply relay_def dict_get_def)

text \<open>
  The hypotheses hold for the upstream body \<^verbatim>\<open>{"conversation_id":"c1"}\<close>.
\<close>

theorem C6_server_missing_url_witness:
  "calls (do_POST demo_lib demo_secrets (upstream_replies 200 no_url_text)
       (post_request inbound_text)) = [server_call demo_secrets demo_payload] \<and>
   upstream_replies 200 no_url_text (server_call demo_secrets demo_payload) =
     Responded \<lparr>status_code = 200, resp_text = no_url_text\<rparr> \<and>
   status_code \<lparr>status_code = 200, resp_text = no_url_text\<rparr> = 200 \<and>
   response_json demo_lib \<lparr>status_code = 200, resp_text = no_url_text\<rparr> =
     Some (JObj [(''conversation_id'', JStr ''c1'')]) \<and>
   map_of [(''conversation_id'', JStr ''c1'')] ''conversation_url'' = None \<and>
   reply (do_POST demo_lib demo_secrets (upstream_replies 200 no_url_text)
       (post_request inbound_text)) =
     Inr \<lparr>status = 500,
          headers = [(''Content-Type'', ''application/json'')],
          body = Json (JObj [(''error'', JStr ''Invalid response from Tavus API''),
                             (''details'', JObj [(''conversation_id'', JStr ''c1'')])])\<rparr>"
proof -
  have u: "upstream_replies 200 no_url_text (server_call demo_secrets demo_payload) =
     Responded \<lparr>status_code = 200, resp_text = no_url_text\<rparr>"
    by (simp add: upstream_replies_def)
  have n: "status_code \<lparr>status_code = 200, resp_text = no_url_text\<rparr> = 200"
    by simp
  have j: "response_json demo_lib \<lparr>status_code = 200, resp_text = no_url_text\<rparr> =
     Some (JObj [(''conversation_id'', JStr ''c1'')])"
    by (simp add: demo_defs response_json_def)
  have m: "map_of [(''conversation_id'', JStr ''c1'')] ''conversation_url'' = None"
    by simp
  note c = demo_server_calls [of "upstream_replies 200 no_url_text"]
  from c u n j m C6_server_missing_url [OF c u n j m]
  show ?thesis by simp
qed

subsection \<open>Upstream success\<close>

text \<open>
  The server tests \<^verbatim>\<open>not conversation_url\<close>: an upstream body that contains an empty
  \<^verbatim>\<open>conversation_url\<close> (and a \<^verbatim>\<open>conversation_id\<close>) is answered with 500. The Flask
  view relays the whole upstream body, here with a third field.
\<close>

theorem C7_success_body_counterexample:
  "response_json demo_lib \<lparr>status_code = 200, resp_text = empty_url_text\<rparr> =
     Some (JObj [(''conversation_url'', JStr []), (''conversation_id'', JStr ''c1'')]) \<and>
   reply (do_POST demo_lib demo_secrets (upstream_replies 200 empty_url_text)
       (post_request inbound_text)) =
     Inr \<lparr>status = 500,
          headers = [(''Content-Type'', ''application/json'')],
          body = Json (JObj [(''error'', JStr ''Invalid response from Tavus API''),
                             (''details'', JObj [(''conversation_url'', JStr []),
                                                 (''conversation_id'', JStr ''c1'')])])\<rparr> \<and>
   response_json demo_lib \<lparr>status_code = 200, resp_text = extra_field_text\<rparr> =
     Some (JObj [(''conversation_url'', JStr ''https://x''), (''conversation_id'', JStr ''c1''),
                 (''status'', JStr ''active'')]) \<and>
   reply (create_conversation demo_lib demo_secrets (upstream_replies 200 extra_field_text)
       \<lparr>is_json = True, data = inbound_text\<rparr>) =
     Inr \<lparr>status = 200,
          headers = [(''Content-Type'', ''application/json'')] @ cors_headers,
          body = Raw extra_field_text\<rparr>"
  by (simp add: demo_defs handler_defs)

text \<open>
  Claim C7, as amended. In the standard-library server, an upstream 200 whose parsed
  body has a truthy \<^verbatim>\<open>conversation_url\<close> and a \<^verbatim>\<open>conversation_id\<close> is answered with
  status 200 and a JSON body of exactly these two fields, with the upstream's values.
\<close>

theorem C7_server_success:
  "calls (do_POST lib sec post req) = [call] \<Longrightarrow> post call = Responded r \<Longrightarrow>
   status_code r = 200 \<Longrightarrow> response_json lib r = Some (JObj upstream_data) \<Longrightarrow>
   map_of upstream_data ''conversation_url'' = Some u \<Longrightarrow> truthy u \<Longrightarrow>
   map_of upstream_data ''conversation_id'' = Some i \<Longrightarrow>
     reply (do_POST lib sec post req) =
       Inr \<lparr>status = 200,
            headers = cors_headers @ [(''Content-Type'', ''application/json'')],
            body = Json (JObj [(''conversation_url'', u), (''conversation_id'', i)])\<rparr>"
  by (simp add: do_POST_reply relay_def dict_get_def)

text \<open>
  The hypotheses hold for the upstream body of the specification's example.
\<close>

theorem C7_server_success_witness:
  "calls (do_POST demo_lib demo_secrets (upstream_replies 200 ok_text)
       (post_request inbound_text)) = [server_call demo_secrets demo_payload] \<and>
   upstream_replies 200 ok_text (server_call demo_secrets demo_payload) =
     Responded \<lparr>status_code = 200, resp_text = ok_text\<rparr> \<and>
   status_code \<lparr>status_code = 200, resp_text = ok_text\<rparr> = 200 \<and>
   response_json demo_lib \<lparr>status_code = 200, resp_text = ok_text\<rparr> =
     Some (JObj [(''conversation_url'', JStr ''https://x''), (''conversation_id'', JStr ''c1'')]) \<and>
   map_of [(''conversation_url'', JStr ''https://x''), (''conversation_id'', JStr ''c1'')]
     ''conversation_url'' = Some (JStr ''https://x'') \<and>
   truthy (JStr ''https://x'') \<and>
   map_of [(''conversation_url'', JStr ''https://x''), (''conversation_id'', JStr ''c1'')]
     ''conversation_id'' = Some (JStr ''c1'') \<and>
   reply (do_POST demo_lib demo_secrets (upstream_replies 200 ok_text)
       (post_request inbound_text)) =
     Inr \<lparr>status = 200,
          headers = cors_headers @ [(''Content-Type'', ''application/json'')],
          body = Json (JObj [(''conversation_url'', JStr ''https://x''),
                             (''conversation_id'', JStr ''c1'')])\<rparr>"
proof -
  have u: "upstream_replies 200 ok_text (server_call demo_secrets demo_payload) =
     Responded \<lparr>status_code = 200, resp_text = ok_text\<rparr>"
    by (simp add: upstream_replies_def)
  have n: "status_code \<lparr>status_code = 200, resp_text = ok_text\<rparr> = 200"
    by simp
  have j: "response_json demo_lib \<lparr>status_code = 200, resp_text = ok_text\<rparr> =
     Some (JObj [(''conversation_url'', JStr ''https://x''), (''conversation_id'', JStr ''c1'')])"
    by (simp add: demo_defs response_json_def)
  have m: "map_of [(''conversation_url'', JStr ''https://x''), (''conversation_id'', JStr ''c1'')]
     ''conversation_url'' = Some (JStr ''https://x'')"
    by simp
  have t: "truthy (JStr ''https://x'')"
    by simp
  have i: "map_of [(''conversation_url'', JStr ''https://x''), (''conversation_id'', JStr ''c1'')]
     ''conversation_id'' = Some (JStr ''c1'')"
    by simp
  note c = demo_server_calls [of "upstream_replies 200 ok_text"]
  from c u n j m t i C7_server_success [OF c u n j m t i]
  show ?thesis by simp
qed




subsection \<open>Timeout of the outbound call\<close>

text \<open>
  Claim C8 says that every outbound call is issued with a bounded timeout. The Flask
  view calls \<^verbatim>\<open>requests.post\<close> without a \<^verbatim>\<open>timeout\<close> argument.
\<close>

theorem C8_flask_call_without_timeout:
  "map timeout (calls (create_conversation demo_lib demo_secrets (upstream_replies 200 ok_text)
       \<lparr>is_json = True, data = inbound_text\<rparr>)) = [None]"
  by (simp add: demo_defs handler_defs)

end
